theory Spec2Isabelle
  imports Complex_Main
begin

section \<open>Data model\<close>

text \<open>
  The hotel booking backend keeps rooms and bookings in a relational store that the
  route handlers reach through a Prisma client. The handlers of
  \<^verbatim>\<open>backend/routes/rooms.js\<close> (rooms router and bookings router) and the
  validators of \<^verbatim>\<open>backend/middleware/validation.js\<close> are embedded here as
  functions over an explicit store.

  Conventions of the embedding:
  \<^item> a JavaScript \<^verbatim>\<open>Date\<close> is its millisecond timestamp (\<open>int\<close>); request
    strings are taken as well-formed ISO-8601 and already parsed;
  \<^item> JavaScript numbers are exact: counts are \<open>int\<close>, prices are \<open>rat\<close>;
  \<^item> identifiers and roles are strings, compared as the source compares them;
  \<^item> every handler is modelled after \<^verbatim>\<open>authenticateToken\<close> has attached the
    verified user (id and role) to the request;
  \<^item> an HTTP error response is a value of type \<open>error\<close>, named after the
    \<^verbatim>\<open>error\<close> field of the JSON payload.
\<close>

datatype booking_status = PENDING | CONFIRMED | CANCELLED | COMPLETED

record room =
  room_id :: string
  price :: rat
  totalRooms :: int
  availableRooms :: int

record booking =
  booking_id :: string
  userId :: string
  roomId :: string
  checkinDate :: int
  checkoutDate :: int
  totalPrice :: rat
  guests :: int
  status :: booking_status

record store =
  rooms :: "room list"
  bookings :: "booking list"

datatype error =
    ValidationError "string list"
  | MissingParameters
  | InvalidDates
  | RoomNotFound
  | RoomNotAvailable
  | BookingNotFound
  | AccessDenied
  | InvalidStatus
  | AlreadyCancelled
  | CannotCancel
  | InternalServerError

text \<open>The \<^verbatim>\<open>availability\<close> object of the response of
  \<^verbatim>\<open>GET /rooms/:id/availability\<close>.\<close>

record availability =
  av_roomId :: string
  av_checkinDate :: int
  av_checkoutDate :: int
  av_totalRooms :: int
  bookedRooms :: int
  av_availableRooms :: int
  isAvailable :: bool

section \<open>Persistence primitives\<close>

text \<open>\<^verbatim>\<open>prisma.room.findUnique({ where: { id } })\<close> and
  \<^verbatim>\<open>prisma.booking.findUnique({ where: { id } })\<close>.\<close>

definition room_findUnique :: "store \<Rightarrow> string \<Rightarrow> room option" where
  "room_findUnique st i = find (\<lambda>r. room_id r = i) (rooms st)"

definition booking_findUnique :: "store \<Rightarrow> string \<Rightarrow> booking option" where
  "booking_findUnique st i = find (\<lambda>b. booking_id b = i) (bookings st)"

text \<open>\<^verbatim>\<open>prisma.booking.update({ where: { id }, data })\<close>: the record with the
  given id is rewritten and returned; \<open>None\<close> is Prisma's error P2025 (no such record).\<close>

fun booking_update ::
  "string \<Rightarrow> (booking \<Rightarrow> booking) \<Rightarrow> booking list \<Rightarrow> (booking \<times> booking list) option" where
  "booking_update i f [] = None"
| "booking_update i f (b # bs) =
     (if booking_id b = i then Some (f b, f b # bs)
      else (case booking_update i f bs of
              None \<Rightarrow> None
            | Some (b', bs') \<Rightarrow> Some (b', b # bs')))"

section \<open>Input validation (middleware/validation.js)\<close>

text \<open>Each validator chain yields the list of its error messages, in the order of the
  chain; \<^verbatim>\<open>handleValidationErrors\<close> answers 400 \<^verbatim>\<open>Validation Error\<close> when the
  list is not empty.\<close>

definition handleValidationErrors :: "string list \<Rightarrow> error option" where
  "handleValidationErrors errors =
     (if errors \<noteq> [] then Some (ValidationError errors) else None)"

definition validateId :: "string \<Rightarrow> string list" where
  "validateId i = (if i = [] then [''ID is required''] else [])"

text \<open>\<open>today\<close> is the timestamp of \<^verbatim>\<open>new Date()\<close> after
  \<^verbatim>\<open>setHours(0, 0, 0, 0)\<close>: midnight of the current day.\<close>

definition validateBooking :: "int \<Rightarrow> string \<Rightarrow> int \<Rightarrow> int \<Rightarrow> int \<Rightarrow> string list" where
  "validateBooking today rid checkin checkout g =
     (if rid = [] then [''Room ID is required''] else []) @
     (if checkin < today then [''Check-in date cannot be in the past''] else []) @
     (if checkout \<le> checkin then [''Check-out date must be after check-in date''] else []) @
     (if 1 \<le> g \<and> g \<le> 10 then [] else [''Number of guests must be between 1 and 10''])"

section \<open>Availability and booking creation\<close>

text \<open>The \<^verbatim>\<open>status: { in: ['PENDING', 'CONFIRMED'] }\<close> filter and the three-clause
  \<^verbatim>\<open>OR\<close> on the dates, as both routes write them.\<close>

definition activeStatus :: "booking \<Rightarrow> bool" where
  "activeStatus b \<longleftrightarrow> status b \<in> set [PENDING, CONFIRMED]"

definition dateOverlapWhere :: "int \<Rightarrow> int \<Rightarrow> booking \<Rightarrow> bool" where
  "dateOverlapWhere checkin checkout b \<longleftrightarrow>
     (checkinDate b \<le> checkin \<and> checkoutDate b \<ge> checkin) \<or>
     (checkinDate b \<le> checkout \<and> checkoutDate b \<ge> checkout) \<or>
     (checkinDate b \<ge> checkin \<and> checkoutDate b \<le> checkout)"

text \<open>The bookings included with the room by the availability route
  (\<^verbatim>\<open>include: { bookings: { where: ... } }\<close>).\<close>

definition includedBookings :: "store \<Rightarrow> room \<Rightarrow> int \<Rightarrow> int \<Rightarrow> booking list" where
  "includedBookings st r checkin checkout =
     filter (\<lambda>b. roomId b = room_id r \<and> activeStatus b \<and> dateOverlapWhere checkin checkout b)
       (bookings st)"

text \<open>The \<^verbatim>\<open>conflictingBookings\<close> query of booking creation.\<close>

definition conflictingBookings :: "store \<Rightarrow> string \<Rightarrow> int \<Rightarrow> int \<Rightarrow> booking list" where
  "conflictingBookings st rid checkin checkout =
     filter (\<lambda>b. roomId b = rid \<and> activeStatus b \<and> dateOverlapWhere checkin checkout b)
       (bookings st)"

text \<open>\<^verbatim>\<open>GET /rooms/:id/availability\<close>. A query parameter that is absent or empty
  is \<open>None\<close>.\<close>

definition checkAvailability ::
  "store \<Rightarrow> string \<Rightarrow> int option \<Rightarrow> int option \<Rightarrow> error + availability" where
  "checkAvailability st i checkinQ checkoutQ =
     (case handleValidationErrors (validateId i) of
        Some e \<Rightarrow> Inl e
      | None \<Rightarrow>
         (case (checkinQ, checkoutQ) of
            (Some checkin, Some checkout) \<Rightarrow>
              if checkin \<ge> checkout then Inl InvalidDates
              else (case room_findUnique st i of
                      None \<Rightarrow> Inl RoomNotFound
                    | Some r \<Rightarrow>
                        let booked = int (length (includedBookings st r checkin checkout));
                            avail = availableRooms r - booked
                        in Inr \<lparr> av_roomId = room_id r,
                                 av_checkinDate = checkin,
                                 av_checkoutDate = checkout,
                                 av_totalRooms = totalRooms r,
                                 bookedRooms = booked,
                                 av_availableRooms = max 0 avail,
                                 isAvailable = (avail > 0) \<rparr>)
          | _ \<Rightarrow> Inl MissingParameters))"

text \<open>\<^verbatim>\<open>Math.ceil((checkout - checkin) / (1000 * 60 * 60 * 24))\<close>.\<close>

definition nights :: "int \<Rightarrow> int \<Rightarrow> int" where
  "nights checkin checkout =
     \<lceil>(of_int (checkout - checkin) :: rat) / of_int (1000 * 60 * 60 * 24)\<rceil>"

text \<open>\<^verbatim>\<open>POST /bookings\<close>. \<open>today\<close> is the validator's clock, \<open>newId\<close> the
  identifier the persistence layer gives the created record, \<open>uid\<close> the authenticated
  user. The result is the response together with the store afterwards.\<close>

definition createBooking ::
  "int \<Rightarrow> string \<Rightarrow> store \<Rightarrow> string \<Rightarrow> string \<Rightarrow> int \<Rightarrow> int \<Rightarrow> int
     \<Rightarrow> (error + booking) \<times> store" where
  "createBooking today newId st uid rid checkin checkout g =
     (case handleValidationErrors (validateBooking today rid checkin checkout g) of
        Some e \<Rightarrow> (Inl e, st)
      | None \<Rightarrow>
         (let n = nights checkin checkout in
          case room_findUnique st rid of
            None \<Rightarrow> (Inl RoomNotFound, st)
          | Some r \<Rightarrow>
              let booked = int (length (conflictingBookings st rid checkin checkout));
                  avail = availableRooms r - booked
              in if avail \<le> 0 then (Inl RoomNotAvailable, st)
                 else
                   let b = \<lparr> booking_id = newId, userId = uid, roomId = rid,
                             checkinDate = checkin, checkoutDate = checkout,
                             totalPrice = price r * of_int n, guests = g,
                             status = PENDING \<rparr>
                   in (Inr b, st\<lparr>bookings := bookings st @ [b]\<rparr>)))"

section \<open>Cancellation and status updates\<close>

text \<open>\<^verbatim>\<open>PUT /bookings/:id/cancel\<close>, for the actor \<open>(actorId, actorRole)\<close>.\<close>

definition cancelBooking ::
  "store \<Rightarrow> string \<Rightarrow> string \<Rightarrow> string \<Rightarrow> (error + booking) \<times> store" where
  "cancelBooking st actorId actorRole i =
     (case handleValidationErrors (validateId i) of
        Some e \<Rightarrow> (Inl e, st)
      | None \<Rightarrow>
         (case booking_findUnique st i of
            None \<Rightarrow> (Inl BookingNotFound, st)
          | Some existingBooking \<Rightarrow>
              if actorRole \<noteq> ''ADMIN'' \<and> userId existingBooking \<noteq> actorId
                then (Inl AccessDenied, st)
              else if status existingBooking = CANCELLED then (Inl AlreadyCancelled, st)
              else if status existingBooking = COMPLETED then (Inl CannotCancel, st)
              else (case booking_update i (\<lambda>b. b\<lparr>status := CANCELLED\<rparr>) (bookings st) of
                      None \<Rightarrow> (Inl InternalServerError, st)
                    | Some (b, bs) \<Rightarrow> (Inr b, st\<lparr>bookings := bs\<rparr>))))"

text \<open>The \<^verbatim>\<open>validStatuses.includes(status)\<close> test of the status route, reading the
  request's string as a status.\<close>

definition status_of_string :: "string \<Rightarrow> booking_status option" where
  "status_of_string s =
     (if s = ''PENDING'' then Some PENDING
      else if s = ''CONFIRMED'' then Some CONFIRMED
      else if s = ''CANCELLED'' then Some CANCELLED
      else if s = ''COMPLETED'' then Some COMPLETED
      else None)"

text \<open>\<^verbatim>\<open>PUT /bookings/:id/status\<close> behind \<^verbatim>\<open>requireAdmin\<close> and
  \<^verbatim>\<open>validateId\<close>.\<close>

definition updateBookingStatus ::
  "store \<Rightarrow> string \<Rightarrow> string \<Rightarrow> string \<Rightarrow> (error + booking) \<times> store" where
  "updateBookingStatus st actorRole i s =
     (if actorRole \<noteq> ''ADMIN'' then (Inl AccessDenied, st)
      else case handleValidationErrors (validateId i) of
        Some e \<Rightarrow> (Inl e, st)
      | None \<Rightarrow>
         (case status_of_string s of
            None \<Rightarrow> (Inl InvalidStatus, st)
          | Some new_status \<Rightarrow>
             (case booking_update i (\<lambda>b. b\<lparr>status := new_status\<rparr>) (bookings st) of
                None \<Rightarrow> (Inl BookingNotFound, st)
              | Some (b, bs) \<Rightarrow> (Inr b, st\<lparr>bookings := bs\<rparr>))))"

section \<open>Sequences of operations\<close>

datatype operation =
    Create int string string string int int int
  | Cancel string string string
  | UpdateStatus string string string

fun step :: "store \<Rightarrow> operation \<Rightarrow> store" where
  "step st (Create today newId uid rid checkin checkout g) =
     snd (createBooking today newId st uid rid checkin checkout g)"
| "step st (Cancel actorId actorRole i) = snd (cancelBooking st actorId actorRole i)"
| "step st (UpdateStatus actorRole i s) = snd (updateBookingStatus st actorRole i s)"

definition run :: "store \<Rightarrow> operation list \<Rightarrow> store" where
  "run st ops = foldl step st ops"

text \<open>An administrator's status update aimed at booking \<open>i\<close>.\<close>

fun adminStatusUpdateOf :: "string \<Rightarrow> operation \<Rightarrow> bool" where
  "adminStatusUpdateOf i (UpdateStatus actorRole j s) \<longleftrightarrow> actorRole = ''ADMIN'' \<and> j = i"
| "adminStatusUpdateOf i _ \<longleftrightarrow> False"

text \<open>The status changes that \<open>cancelBooking\<close> performs: none, or from an active
  status to \<open>CANCELLED\<close>.\<close>

definition cancel_reachable :: "booking_status \<Rightarrow> booking_status \<Rightarrow> bool" where
  "cancel_reachable s s' \<longleftrightarrow> s' = s \<or> ((s = PENDING \<or> s = CONFIRMED) \<and> s' = CANCELLED)"

section \<open>Example data\<close>

text \<open>Midnight UTC of 10, 14, 15, 20 and 23 January 2024, in milliseconds.\<close>

definition jan10 :: int where "jan10 = 1704844800000"
definition jan14 :: int where "jan14 = 1705190400000"
definition jan15 :: int where "jan15 = 1705276800000"
definition jan20 :: int where "jan20 = 1705708800000"
definition jan23 :: int where "jan23 = 1705968000000"

text \<open>A hotel with one single room, booked from 10 to 15 January.\<close>

definition single_room :: room where
  "single_room = \<lparr> room_id = ''r1'', price = 2000, totalRooms = 1, availableRooms = 1 \<rparr>"

definition stay_10_15 :: booking where
  "stay_10_15 = \<lparr> booking_id = ''b1'', userId = ''u1'', roomId = ''r1'',
                  checkinDate = jan10, checkoutDate = jan15,
                  totalPrice = 10000, guests = 2, status = CONFIRMED \<rparr>"

definition hotel1 :: store where
  "hotel1 = \<lparr> rooms = [single_room], bookings = [stay_10_15] \<rparr>"

definition three_nights :: booking where
  "three_nights = \<lparr> booking_id = ''b2'', userId = ''u2'', roomId = ''r1'',
                    checkinDate = jan20, checkoutDate = jan23,
                    totalPrice = 6000, guests = 2, status = PENDING \<rparr>"

text \<open>A room type with five units of which one is advertised as available.\<close>

definition pool_room :: room where
  "pool_room = \<lparr> room_id = ''r2'', price = 3500, totalRooms = 5, availableRooms = 1 \<rparr>"

definition pool_stay :: booking where
  "pool_stay = \<lparr> booking_id = ''b7'', userId = ''u1'', roomId = ''r2'',
                 checkinDate = jan10, checkoutDate = jan15,
                 totalPrice = 17500, guests = 2, status = PENDING \<rparr>"

definition hotel2 :: store where
  "hotel2 = \<lparr> rooms = [pool_room], bookings = [pool_stay] \<rparr>"

text \<open>A room with one unit whose advertised available count is two; \<^verbatim>\<open>validateRoom\<close>
  accepts any non-negative \<^verbatim>\<open>availableRooms\<close>.\<close>

definition oversold_room :: room where
  "oversold_room = \<lparr> room_id = ''r3'', price = 2000, totalRooms = 1, availableRooms = 2 \<rparr>"

definition oversold_stay :: booking where
  "oversold_stay = \<lparr> booking_id = ''b3'', userId = ''u1'', roomId = ''r3'',
                     checkinDate = jan10, checkoutDate = jan20,
                     totalPrice = 20000, guests = 1, status = CONFIRMED \<rparr>"

definition hotel3 :: store where
  "hotel3 = \<lparr> rooms = [oversold_room], bookings = [oversold_stay] \<rparr>"

text \<open>A store holding a cancelled and a completed booking of user \<open>u1\<close>.\<close>

definition cancelled_stay :: booking where
  "cancelled_stay = \<lparr> booking_id = ''b5'', userId = ''u1'', roomId = ''r1'',
                      checkinDate = jan10, checkoutDate = jan14,
                      totalPrice = 8000, guests = 1, status = CANCELLED \<rparr>"

definition completed_stay :: booking where
  "completed_stay = \<lparr> booking_id = ''b6'', userId = ''u1'', roomId = ''r1'',
                      checkinDate = jan14, checkoutDate = jan15,
                      totalPrice = 2000, guests = 1, status = COMPLETED \<rparr>"

definition hotel4 :: store where
  "hotel4 = \<lparr> rooms = [single_room], bookings = [cancelled_stay, completed_stay] \<rparr>"

definition guest_ops :: "operation list" where
  "guest_ops = [Cancel ''u1'' ''USER'' ''b5'',
                UpdateStatus ''USER'' ''b5'' ''PENDING'',
                Create jan10 ''b8'' ''u2'' ''r1'' jan20 jan23 2,
                UpdateStatus ''ADMIN'' ''b6'' ''CONFIRMED'',
                Cancel ''u9'' ''ADMIN'' ''b5'']"

lemmas data_defs = jan10_def jan14_def jan15_def jan20_def jan23_def
  single_room_def stay_10_15_def hotel1_def three_nights_def
  pool_room_def pool_stay_def hotel2_def
  oversold_room_def oversold_stay_def hotel3_def
  cancelled_stay_def completed_stay_def hotel4_def

lemmas handler_defs = handleValidationErrors_def validateId_def validateBooking_def
  room_findUnique_def booking_findUnique_def activeStatus_def dateOverlapWhere_def
  includedBookings_def conflictingBookings_def checkAvailability_def nights_def
  createBooking_def Let_def

section \<open>Basic facts about the primitives\<close>

lemma room_findUnique_id: "room_findUnique st i = Some r \<Longrightarrow> room_id r = i"
  unfolding room_findUnique_def by (auto simp: find_Some_iff)

lemma find_append_Some: "find P xs = Some x \<Longrightarrow> find P (xs @ ys) = Some x"
  by (induction xs) (auto split: if_splits)

lemma booking_update_found:
  "find (\<lambda>b. booking_id b = i) bs = Some b \<Longrightarrow>
   \<exists>bs'. booking_update i f bs = Some (f b, bs')"
  by (induction bs) (auto split: if_splits)

lemma booking_update_same:
  "booking_update i f bs = Some (b', bs') \<Longrightarrow> (\<And>b. booking_id (f b) = booking_id b) \<Longrightarrow>
   find (\<lambda>b. booking_id b = i) bs' = Some b'"
  by (induction bs arbitrary: bs') (auto split: if_splits option.splits)

lemma booking_update_other:
  "booking_update i f bs = Some (b', bs') \<Longrightarrow> (\<And>b. booking_id (f b) = booking_id b) \<Longrightarrow>
   j \<noteq> i \<Longrightarrow> find (\<lambda>b. booking_id b = j) bs' = find (\<lambda>b. booking_id b = j) bs"
  by (induction bs arbitrary: bs') (auto split: if_splits option.splits)

lemma validateId_ok: "i \<noteq> [] \<Longrightarrow> handleValidationErrors (validateId i) = None"
  by (simp add: handleValidationErrors_def validateId_def)

lemma validateBooking_ok:
  "rid \<noteq> [] \<Longrightarrow> today \<le> checkin \<Longrightarrow> checkin < checkout \<Longrightarrow> 1 \<le> g \<Longrightarrow> g \<le> 10 \<Longrightarrow>
   handleValidationErrors (validateBooking today rid checkin checkout g) = None"
  by (simp add: handleValidationErrors_def validateBooking_def)

lemma activeStatus_iff: "activeStatus b \<longleftrightarrow> status b = PENDING \<or> status b = CONFIRMED"
  by (simp add: activeStatus_def)

section \<open>The overlap test\<close>

text \<open>For a stored range that is not reversed and a requested range that passed the
  date-order check, the three \<^verbatim>\<open>OR\<close> clauses say that the closed intervals meet.\<close>

lemma dateOverlapWhere_closed:
  "checkinDate b \<le> checkoutDate b \<Longrightarrow> checkin < checkout \<Longrightarrow>
   dateOverlapWhere checkin checkout b \<longleftrightarrow>
     checkinDate b \<le> checkout \<and> checkin \<le> checkoutDate b"
  unfolding dateOverlapWhere_def by linarith

lemma conflicting_eq_included:
  "room_findUnique st rid = Some r \<Longrightarrow>
   conflictingBookings st rid checkin checkout = includedBookings st r checkin checkout"
  by (simp add: conflictingBookings_def includedBookings_def room_findUnique_id)

text \<open>
  Claim C1, as the code has it. Both the availability route and booking creation count
  a stored booking \<open>[a, b]\<close> (with \<open>a \<le> b\<close>) of the room, in status \<open>PENDING\<close> or
  \<open>CONFIRMED\<close>, against the requested range \<open>[c, d)\<close> (with \<open>c < d\<close>) exactly when
  \<open>a \<le> d\<close> and \<open>c \<le> b\<close>: the comparisons are inclusive at both ends, so a booking that
  checks out on the requested check-in day is counted.
\<close>

theorem overlap_counted_closed_interval:
  assumes "checkin < checkout" and "checkinDate b \<le> checkoutDate b"
  shows "(b \<in> set (includedBookings st r checkin checkout) \<longleftrightarrow>
            b \<in> set (bookings st) \<and> roomId b = room_id r \<and>
            (status b = PENDING \<or> status b = CONFIRMED) \<and>
            checkinDate b \<le> checkout \<and> checkin \<le> checkoutDate b) \<and>
         (b \<in> set (conflictingBookings st rid checkin checkout) \<longleftrightarrow>
            b \<in> set (bookings st) \<and> roomId b = rid \<and>
            (status b = PENDING \<or> status b = CONFIRMED) \<and>
            checkinDate b \<le> checkout \<and> checkin \<le> checkoutDate b)"
  using assms
  by (auto simp: includedBookings_def conflictingBookings_def activeStatus_iff
                 dateOverlapWhere_closed)

text \<open>The stay of 10 to 15 January is counted against 14 to 20 January and against
  15 to 20 January alike.\<close>

theorem overlap_counted_closed_interval_witness:
  "jan15 < jan20 \<and> checkinDate stay_10_15 \<le> checkoutDate stay_10_15 \<and>
   stay_10_15 \<in> set (includedBookings hotel1 single_room jan15 jan20) \<and>
   stay_10_15 \<in> set (conflictingBookings hotel1 ''r1'' jan15 jan20) \<and>
   stay_10_15 \<in> set (includedBookings hotel1 single_room jan14 jan20) \<and>
   stay_10_15 \<in> set (conflictingBookings hotel1 ''r1'' jan14 jan20)"
  using overlap_counted_closed_interval [of jan15 jan20 stay_10_15 hotel1 single_room "''r1''"]
        overlap_counted_closed_interval [of jan14 jan20 stay_10_15 hotel1 single_room "''r1''"]
  by (simp add: data_defs)

text \<open>The half-open test \<open>a < d \<and> c < b\<close> fails for the stay of 10 to 15 January and the
  request of 15 to 20 January, yet both routes count the stay.\<close>

theorem boundary_day_counted:
  "stay_10_15 \<in> set (includedBookings hotel1 single_room jan15 jan20) \<and>
   stay_10_15 \<in> set (conflictingBookings hotel1 ''r1'' jan15 jan20) \<and>
   \<not> (checkinDate stay_10_15 < jan20 \<and> jan15 < checkoutDate stay_10_15)"
  by (simp add: data_defs handler_defs)

section \<open>The availability checker\<close>

lemma includedBookings_closed:
  assumes "checkin < checkout" and "\<forall>b\<in>set (bookings st). checkinDate b \<le> checkoutDate b"
  shows "includedBookings st r checkin checkout =
         filter (\<lambda>b. roomId b = room_id r \<and> (status b = PENDING \<or> status b = CONFIRMED) \<and>
                      checkinDate b \<le> checkout \<and> checkin \<le> checkoutDate b) (bookings st)"
  unfolding includedBookings_def
  by (rule filter_cong) (use assms in \<open>auto simp: activeStatus_iff dateOverlapWhere_closed\<close>)

text \<open>
  Claim C2, as the code has it. For an existing room and a valid range, over a store
  whose bookings have check-in not after check-out, the availability check succeeds;
  \<open>bookedRooms\<close> is the number of \<open>PENDING\<close> or \<open>CONFIRMED\<close> bookings of the room
  whose closed range meets the requested one; the reported available count is
  \<open>max 0 (availableRooms - bookedRooms)\<close>, taken from the room's \<open>availableRooms\<close> field
  and not from \<open>totalRooms\<close>; \<open>isAvailable\<close> says that this count is positive; and
  \<open>totalRooms\<close> is only echoed.
\<close>

theorem checkAvailability_counts:
  assumes "i \<noteq> []" and "room_findUnique st i = Some r" and "checkin < checkout"
    and "\<forall>b\<in>set (bookings st). checkinDate b \<le> checkoutDate b"
  shows "\<exists>a. checkAvailability st i (Some checkin) (Some checkout) = Inr a \<and>
           bookedRooms a =
             int (length (filter (\<lambda>b. roomId b = i \<and> (status b = PENDING \<or> status b = CONFIRMED) \<and>
                                       checkinDate b \<le> checkout \<and> checkin \<le> checkoutDate b)
                            (bookings st))) \<and>
           av_availableRooms a = max 0 (availableRooms r - bookedRooms a) \<and>
           isAvailable a = (av_availableRooms a > 0) \<and>
           av_totalRooms a = totalRooms r"
proof -
  have rid: "room_id r = i" using assms(2) by (rule room_findUnique_id)
  show ?thesis
    using assms(1,2,3) includedBookings_closed [OF assms(3,4), of r] rid
    by (auto simp: checkAvailability_def validateId_ok Let_def max_def)
qed

theorem checkAvailability_counts_witness:
  "checkAvailability hotel2 ''r2'' (Some jan14) (Some jan20) =
     Inr \<lparr> av_roomId = ''r2'', av_checkinDate = jan14, av_checkoutDate = jan20,
           av_totalRooms = 5, bookedRooms = 1, av_availableRooms = 0, isAvailable = False \<rparr>"
proof -
  have 1: "''r2'' \<noteq> []" by simp
  have 2: "room_findUnique hotel2 ''r2'' = Some pool_room"
    by (simp add: room_findUnique_def data_defs)
  have 3: "jan14 < jan20" by (simp add: data_defs)
  have 4: "\<forall>b\<in>set (bookings hotel2). checkinDate b \<le> checkoutDate b"
    by (simp add: data_defs)
  show ?thesis
    using checkAvailability_counts [OF 1 2 3 4]
    by (simp add: data_defs handler_defs)
qed

text \<open>With five units in total, one advertised and one overlapping booking, the check
  reports no unit available although \<open>max 0 (totalRooms - bookedRooms)\<close> is four; and
  the stay that ends on 15 January is counted for a request that starts that day,
  although no booking overlaps the request in the half-open sense.\<close>

theorem availableRooms_field_not_totalRooms:
  "checkAvailability hotel2 ''r2'' (Some jan14) (Some jan20) =
     Inr \<lparr> av_roomId = ''r2'', av_checkinDate = jan14, av_checkoutDate = jan20,
           av_totalRooms = 5, bookedRooms = 1, av_availableRooms = 0, isAvailable = False \<rparr> \<and>
   max 0 (totalRooms pool_room - 1) = 4 \<and>
   checkAvailability hotel1 ''r1'' (Some jan15) (Some jan20) =
     Inr \<lparr> av_roomId = ''r1'', av_checkinDate = jan15, av_checkoutDate = jan20,
           av_totalRooms = 1, bookedRooms = 1, av_availableRooms = 0, isAvailable = False \<rparr> \<and>
   filter (\<lambda>b. roomId b = ''r1'' \<and> (status b = PENDING \<or> status b = CONFIRMED) \<and>
                checkinDate b < jan20 \<and> jan15 < checkoutDate b) (bookings hotel1) = []"
  by (simp add: data_defs handler_defs)

section \<open>Booking creation\<close>

text \<open>
  Claim C3, as the code has it. For a request whose check-in is not before the
  validator's current day, whose range is valid and whose guest count is between 1 and
  10, booking creation answers \<open>Room Not Available\<close> exactly when the availability
  check on the same room, range and store succeeds with \<open>isAvailable = False\<close>.
\<close>

theorem createBooking_unavailable_iff:
  assumes "today \<le> checkin" and "checkin < checkout" and "1 \<le> g" and "g \<le> 10"
  shows "fst (createBooking today newId st uid rid checkin checkout g) = Inl RoomNotAvailable \<longleftrightarrow>
         (\<exists>a. checkAvailability st rid (Some checkin) (Some checkout) = Inr a \<and> \<not> isAvailable a)"
proof (cases "rid = []")
  case True
  then show ?thesis
    by (simp add: createBooking_def checkAvailability_def handleValidationErrors_def
                  validateBooking_def validateId_def)
next
  case False
  note ok = validateBooking_ok [OF False assms] validateId_ok [OF False]
  show ?thesis
  proof (cases "room_findUnique st rid")
    case None
    then show ?thesis using assms(2) by (simp add: createBooking_def checkAvailability_def ok)
  next
    case (Some r)
    then show ?thesis
      using assms(2) conflicting_eq_included [OF Some, of checkin checkout]
      by (auto simp: createBooking_def checkAvailability_def ok Let_def)
  qed
qed

theorem createBooking_unavailable_iff_witness:
  "fst (createBooking jan10 ''b2'' hotel1 ''u2'' ''r1'' jan14 jan20 2) = Inl RoomNotAvailable \<and>
   checkAvailability hotel1 ''r1'' (Some jan14) (Some jan20) =
     Inr \<lparr> av_roomId = ''r1'', av_checkinDate = jan14, av_checkoutDate = jan20,
           av_totalRooms = 1, bookedRooms = 1, av_availableRooms = 0, isAvailable = False \<rparr>"
proof -
  have 1: "jan10 \<le> jan14" and 2: "jan14 < jan20" by (simp_all add: data_defs)
  have 3: "(1::int) \<le> 2" and 4: "(2::int) \<le> 10" by simp_all
  have av: "checkAvailability hotel1 ''r1'' (Some jan14) (Some jan20) =
     Inr \<lparr> av_roomId = ''r1'', av_checkinDate = jan14, av_checkoutDate = jan20,
           av_totalRooms = 1, bookedRooms = 1, av_availableRooms = 0, isAvailable = False \<rparr>"
    by (simp add: data_defs handler_defs)
  show ?thesis
    using createBooking_unavailable_iff [OF 1 2 3 4, of "''b2''" hotel1 "''u2''" "''r1''"] av
    by simp
qed

text \<open>On 15 January a request for 14 to 20 January has a valid range and guest count and
  the availability check reports the room unavailable, but booking creation answers with
  a validation error, not with \<open>Room Not Available\<close>.\<close>

theorem past_checkin_breaks_equivalence:
  "fst (createBooking jan15 ''b2'' hotel1 ''u2'' ''r1'' jan14 jan20 2) =
     Inl (ValidationError [''Check-in date cannot be in the past'']) \<and>
   checkAvailability hotel1 ''r1'' (Some jan14) (Some jan20) =
     Inr \<lparr> av_roomId = ''r1'', av_checkinDate = jan14, av_checkoutDate = jan20,
           av_totalRooms = 1, bookedRooms = 1, av_availableRooms = 0, isAvailable = False \<rparr>"
  by (simp add: data_defs handler_defs)

lemma conflictingBookings_nonempty:
  assumes "b \<in> set (bookings st)" and "roomId b = rid" and "activeStatus b"
    and "dateOverlapWhere checkin checkout b"
  shows "1 \<le> int (length (conflictingBookings st rid checkin checkout))"
proof -
  have "b \<in> set (conflictingBookings st rid checkin checkout)"
    using assms by (simp add: conflictingBookings_def)
  then have "conflictingBookings st rid checkin checkout \<noteq> []" by auto
  then show ?thesis by (cases "conflictingBookings st rid checkin checkout") simp_all
qed

text \<open>
  Claim C4, as the code has it. For a room with \<open>totalRooms = 1\<close> whose
  \<open>availableRooms\<close> field does not exceed \<open>totalRooms\<close>, if a \<open>CONFIRMED\<close> booking of
  the room covers the requested range, a request that passes input validation fails
  with \<open>Room Not Available\<close> and leaves the store unchanged.
\<close>

theorem createBooking_single_room_taken:
  assumes "room_findUnique st rid = Some r" and "totalRooms r = 1"
    and "availableRooms r \<le> totalRooms r"
    and "b \<in> set (bookings st)" and "roomId b = rid" and "status b = CONFIRMED"
    and "checkinDate b \<le> checkin" and "checkout \<le> checkoutDate b"
    and "rid \<noteq> []" and "today \<le> checkin" and "checkin < checkout" and "1 \<le> g" and "g \<le> 10"
  shows "createBooking today newId st uid rid checkin checkout g = (Inl RoomNotAvailable, st)"
proof -
  have ov: "dateOverlapWhere checkin checkout b"
    using assms(7,8,11) unfolding dateOverlapWhere_def by linarith
  have act: "activeStatus b" using assms(6) by (simp add: activeStatus_def)
  have "1 \<le> int (length (conflictingBookings st rid checkin checkout))"
    by (rule conflictingBookings_nonempty [OF assms(4,5) act ov])
  then have "availableRooms r - int (length (conflictingBookings st rid checkin checkout)) \<le> 0"
    using assms(2,3) by linarith
  then show ?thesis
    using assms(1) validateBooking_ok [OF assms(9,10,11,12,13)]
    by (simp add: createBooking_def Let_def)
qed

theorem createBooking_single_room_taken_witness:
  "createBooking jan10 ''b2'' hotel1 ''u2'' ''r1'' jan14 jan15 2 = (Inl RoomNotAvailable, hotel1)"
proof -
  have 1: "room_findUnique hotel1 ''r1'' = Some single_room"
    by (simp add: room_findUnique_def data_defs)
  have 2: "totalRooms single_room = 1" and 3: "availableRooms single_room \<le> totalRooms single_room"
    by (simp_all add: single_room_def)
  have 4: "stay_10_15 \<in> set (bookings hotel1)" by (simp add: hotel1_def)
  have 5: "roomId stay_10_15 = ''r1''" and 6: "status stay_10_15 = CONFIRMED"
    and 7: "checkinDate stay_10_15 \<le> jan14" and 8: "jan15 \<le> checkoutDate stay_10_15"
    by (simp_all add: data_defs)
  have 9: "''r1'' \<noteq> []" and 10: "jan10 \<le> jan14" and 11: "jan14 < jan15"
    and 12: "(1::int) \<le> 2" and 13: "(2::int) \<le> 10"
    by (simp_all add: data_defs)
  show ?thesis
    by (rule createBooking_single_room_taken [OF 1 2 3 4 5 6 7 8 9 10 11 12 13])
qed

text \<open>A room with \<open>totalRooms = 1\<close> and \<open>availableRooms = 2\<close> whose only unit is taken
  by a \<open>CONFIRMED\<close> booking from 10 to 20 January is booked again for 14 to 15 January;
  and a request with no guests is answered with a validation error.\<close>

theorem availableRooms_field_decides:
  "totalRooms oversold_room = 1 \<and> status oversold_stay = CONFIRMED \<and>
   roomId oversold_stay = ''r3'' \<and>
   checkinDate oversold_stay \<le> jan14 \<and> jan15 \<le> checkoutDate oversold_stay \<and>
   fst (createBooking jan10 ''b4'' hotel3 ''u2'' ''r3'' jan14 jan15 2) =
     Inr \<lparr> booking_id = ''b4'', userId = ''u2'', roomId = ''r3'',
           checkinDate = jan14, checkoutDate = jan15,
           totalPrice = 2000, guests = 2, status = PENDING \<rparr> \<and>
   fst (createBooking jan10 ''b4'' hotel1 ''u2'' ''r1'' jan14 jan15 0) =
     Inl (ValidationError [''Number of guests must be between 1 and 10''])"
  by (simp add: data_defs handler_defs)

subsection \<open>Price\<close>

lemma nights_bounds:
  "(nights checkin checkout - 1) * 86400000 < checkout - checkin \<and>
   checkout - checkin \<le> nights checkin checkout * 86400000"
proof -
  define q :: rat where "q = of_int (checkout - checkin) / 86400000"
  have n: "nights checkin checkout = \<lceil>q\<rceil>" by (simp add: nights_def q_def)
  have qd: "q * 86400000 = of_int (checkout - checkin)" by (simp add: q_def)
  have lo: "of_int \<lceil>q\<rceil> - 1 < q" and hi: "q \<le> of_int \<lceil>q\<rceil>" by linarith+
  have "(of_int \<lceil>q\<rceil> - 1) * 86400000 < q * 86400000"
    using lo by (rule mult_strict_right_mono) simp
  moreover have "q * 86400000 \<le> of_int \<lceil>q\<rceil> * 86400000"
    using hi by (rule mult_right_mono) simp
  ultimately have "(of_int ((\<lceil>q\<rceil> - 1) * 86400000) :: rat) < of_int (checkout - checkin)"
    and "(of_int (checkout - checkin) :: rat) \<le> of_int (\<lceil>q\<rceil> * 86400000)"
    unfolding qd by simp_all
  then show ?thesis unfolding n of_int_less_iff of_int_le_iff by simp
qed

lemma nights_whole_days: "checkout - checkin = k * 86400000 \<Longrightarrow> nights checkin checkout = k"
  by (simp add: nights_def)

text \<open>
  Claim C5. When booking creation succeeds, the room exists, the store gains exactly
  the returned booking, whose status is \<open>PENDING\<close> and whose total price is the room's
  price times the number of nights; the number of nights is the least integer \<open>n\<close> with
  \<open>checkout - checkin \<le> n\<close> days; and a room priced 2000 booked for three whole days
  costs 6000.
\<close>

theorem createBooking_price:
  assumes "createBooking today newId st uid rid checkin checkout g = (Inr b, st')"
  shows "\<exists>r. room_findUnique st rid = Some r \<and>
           totalPrice b = price r * of_int (nights checkin checkout) \<and>
           status b = PENDING \<and>
           bookings st' = bookings st @ [b] \<and> rooms st' = rooms st \<and>
           (nights checkin checkout - 1) * 86400000 < checkout - checkin \<and>
           checkout - checkin \<le> nights checkin checkout * 86400000 \<and>
           (price r = 2000 \<and> checkout - checkin = 3 * 86400000 \<longrightarrow> totalPrice b = 6000)"
proof -
  from assms obtain r where r: "room_findUnique st rid = Some r"
    by (auto simp: createBooking_def Let_def split: option.splits)
  from assms r have b: "totalPrice b = price r * of_int (nights checkin checkout)"
    "status b = PENDING" "bookings st' = bookings st @ [b]" "rooms st' = rooms st"
    by (auto simp: createBooking_def Let_def split: option.splits if_splits)
  have "price r = 2000 \<and> checkout - checkin = 3 * 86400000 \<longrightarrow> totalPrice b = 6000"
    using b(1) nights_whole_days [of checkout checkin 3] by auto
  with r b nights_bounds [of checkin checkout] show ?thesis by blast
qed

theorem createBooking_price_witness:
  "createBooking jan10 ''b2'' hotel1 ''u2'' ''r1'' jan20 jan23 2 =
     (Inr three_nights, hotel1\<lparr>bookings := [stay_10_15, three_nights]\<rparr>) \<and>
   price single_room = 2000 \<and> jan23 - jan20 = 3 * 86400000 \<and>
   totalPrice three_nights = 6000 \<and> status three_nights = PENDING"
proof -
  have c: "createBooking jan10 ''b2'' hotel1 ''u2'' ''r1'' jan20 jan23 2 =
     (Inr three_nights, hotel1\<lparr>bookings := [stay_10_15, three_nights]\<rparr>)"
    by (simp add: data_defs handler_defs)
  show ?thesis
    using createBooking_price [OF c] c by (simp add: data_defs)
qed

subsection \<open>Rejected requests\<close>

text \<open>
  Claim C6. When the check-out date is not after the check-in date, the availability
  check answers \<open>Invalid Dates\<close> (for a non-empty room id, the only kind the route
  \<^verbatim>\<open>/:id/availability\<close> matches), and booking creation answers with a validation error
  that carries the check-out message and leaves the store as it was. The availability
  check never writes to the store.
\<close>

theorem invalid_range_rejected:
  assumes "checkout \<le> checkin"
  shows "(i \<noteq> [] \<longrightarrow> checkAvailability st i (Some checkin) (Some checkout) = Inl InvalidDates) \<and>
         (\<exists>errors. createBooking today newId st uid rid checkin checkout g =
                      (Inl (ValidationError errors), st) \<and>
                    ''Check-out date must be after check-in date'' \<in> set errors)"
  using assms
  by (simp add: checkAvailability_def createBooking_def validateId_def
                handleValidationErrors_def validateBooking_def)

theorem invalid_range_rejected_witness:
  "checkAvailability hotel1 ''r1'' (Some jan15) (Some jan15) = Inl InvalidDates \<and>
   createBooking jan10 ''b2'' hotel1 ''u2'' ''r1'' jan15 jan15 2 =
     (Inl (ValidationError [''Check-out date must be after check-in date'']), hotel1)"
proof -
  have 1: "jan15 \<le> jan15" by simp
  show ?thesis
    using invalid_range_rejected [OF 1, of "''r1''" hotel1 jan10 "''b2''" "''u2''" "''r1''" 2]
    by (auto simp: validateBooking_def createBooking_def handleValidationErrors_def data_defs)
qed

text \<open>
  Claim C9. A booking request whose check-in date is before midnight of the current day
  is answered with a validation error that carries the check-in message, and the store
  is left as it was.
\<close>

theorem past_checkin_rejected:
  assumes "checkin < today"
  shows "\<exists>errors. createBooking today newId st uid rid checkin checkout g =
                     (Inl (ValidationError errors), st) \<and>
                   ''Check-in date cannot be in the past'' \<in> set errors"
  using assms
  by (simp add: createBooking_def handleValidationErrors_def validateBooking_def)

theorem past_checkin_rejected_witness:
  "createBooking jan15 ''b2'' hotel1 ''u2'' ''r1'' jan14 jan20 2 =
     (Inl (ValidationError [''Check-in date cannot be in the past'']), hotel1)"
proof -
  have 1: "jan14 < jan15" by (simp add: data_defs)
  show ?thesis
    using past_checkin_rejected [OF 1, of "''b2''" hotel1 "''u2''" "''r1''" jan20 2]
    by (auto simp: validateBooking_def createBooking_def handleValidationErrors_def data_defs)
qed

section \<open>Cancellation\<close>

lemma cancelBooking_success:
  assumes "i \<noteq> []" and "booking_findUnique st i = Some b"
    and "actorRole = ''ADMIN'' \<or> userId b = actorId"
    and "status b = PENDING \<or> status b = CONFIRMED"
  shows "\<exists>st'. cancelBooking st actorId actorRole i = (Inr (b\<lparr>status := CANCELLED\<rparr>), st') \<and>
           booking_findUnique st' i = Some (b\<lparr>status := CANCELLED\<rparr>) \<and>
           (\<forall>j. j \<noteq> i \<longrightarrow> booking_findUnique st' j = booking_findUnique st j) \<and>
           rooms st' = rooms st"
proof -
  let ?f = "\<lambda>b::booking. b\<lparr>status := CANCELLED\<rparr>"
  from assms(2) obtain bs where u: "booking_update i ?f (bookings st) = Some (?f b, bs)"
    unfolding booking_findUnique_def using booking_update_found by blast
  have same: "find (\<lambda>b. booking_id b = i) bs = Some (?f b)"
    by (rule booking_update_same [OF u]) simp
  have other: "\<And>j. j \<noteq> i \<Longrightarrow>
      find (\<lambda>b. booking_id b = j) bs = find (\<lambda>b. booking_id b = j) (bookings st)"
    by (rule booking_update_other [OF u]) simp_all
  have "cancelBooking st actorId actorRole i = (Inr (?f b), st\<lparr>bookings := bs\<rparr>)"
    using assms u by (auto simp: cancelBooking_def validateId_ok)
  with same other show ?thesis by (simp add: booking_findUnique_def)
qed

text \<open>
  Claim C7. For an existing booking (under a non-empty id, the only kind the route
  matches): an actor who is neither an administrator nor the owner gets
  \<open>Access Denied\<close>; an authorised actor gets \<open>Already Cancelled\<close> for a cancelled
  booking and \<open>Cannot Cancel\<close> for a completed one; in all three cases the store is
  unchanged. Otherwise the booking is returned with status \<open>CANCELLED\<close>, the store holds
  it under the same id, and every other booking and every room is as before.
\<close>

theorem cancelBooking_rules:
  assumes "i \<noteq> []" and "booking_findUnique st i = Some b"
  shows "(actorRole \<noteq> ''ADMIN'' \<and> userId b \<noteq> actorId \<longrightarrow>
            cancelBooking st actorId actorRole i = (Inl AccessDenied, st)) \<and>
         ((actorRole = ''ADMIN'' \<or> userId b = actorId) \<and> status b = CANCELLED \<longrightarrow>
            cancelBooking st actorId actorRole i = (Inl AlreadyCancelled, st)) \<and>
         ((actorRole = ''ADMIN'' \<or> userId b = actorId) \<and> status b = COMPLETED \<longrightarrow>
            cancelBooking st actorId actorRole i = (Inl CannotCancel, st)) \<and>
         ((actorRole = ''ADMIN'' \<or> userId b = actorId) \<and>
          (status b = PENDING \<or> status b = CONFIRMED) \<longrightarrow>
            (\<exists>st'. cancelBooking st actorId actorRole i = (Inr (b\<lparr>status := CANCELLED\<rparr>), st') \<and>
                   booking_findUnique st' i = Some (b\<lparr>status := CANCELLED\<rparr>) \<and>
                   (\<forall>j. j \<noteq> i \<longrightarrow> booking_findUnique st' j = booking_findUnique st j) \<and>
                   rooms st' = rooms st))"
proof (intro conjI impI)
  assume "actorRole \<noteq> ''ADMIN'' \<and> userId b \<noteq> actorId"
  then show "cancelBooking st actorId actorRole i = (Inl AccessDenied, st)"
    using assms by (simp add: cancelBooking_def validateId_ok)
next
  assume "(actorRole = ''ADMIN'' \<or> userId b = actorId) \<and> status b = CANCELLED"
  then show "cancelBooking st actorId actorRole i = (Inl AlreadyCancelled, st)"
    using assms by (auto simp: cancelBooking_def validateId_ok)
next
  assume "(actorRole = ''ADMIN'' \<or> userId b = actorId) \<and> status b = COMPLETED"
  then show "cancelBooking st actorId actorRole i = (Inl CannotCancel, st)"
    using assms by (auto simp: cancelBooking_def validateId_ok)
next
  assume "(actorRole = ''ADMIN'' \<or> userId b = actorId) \<and>
          (status b = PENDING \<or> status b = CONFIRMED)"
  then show "\<exists>st'. cancelBooking st actorId actorRole i = (Inr (b\<lparr>status := CANCELLED\<rparr>), st') \<and>
                   booking_findUnique st' i = Some (b\<lparr>status := CANCELLED\<rparr>) \<and>
                   (\<forall>j. j \<noteq> i \<longrightarrow> booking_findUnique st' j = booking_findUnique st j) \<and>
                   rooms st' = rooms st"
    using cancelBooking_success [OF assms] by blast
qed

theorem cancelBooking_rules_witness:
  "cancelBooking hotel1 ''u2'' ''USER'' ''b1'' = (Inl AccessDenied, hotel1) \<and>
   cancelBooking hotel4 ''u1'' ''USER'' ''b5'' = (Inl AlreadyCancelled, hotel4) \<and>
   cancelBooking hotel4 ''u1'' ''USER'' ''b6'' = (Inl CannotCancel, hotel4) \<and>
   fst (cancelBooking hotel1 ''u1'' ''USER'' ''b1'') = Inr (stay_10_15\<lparr>status := CANCELLED\<rparr>) \<and>
   booking_findUnique (snd (cancelBooking hotel1 ''u1'' ''USER'' ''b1'')) ''b1'' =
     Some (stay_10_15\<lparr>status := CANCELLED\<rparr>)"
proof -
  have ne: "''b1'' \<noteq> []" "''b5'' \<noteq> []" "''b6'' \<noteq> []" by simp_all
  have 1: "booking_findUnique hotel1 ''b1'' = Some stay_10_15"
    by (simp add: booking_findUnique_def data_defs)
  have 5: "booking_findUnique hotel4 ''b5'' = Some cancelled_stay"
    by (simp add: booking_findUnique_def data_defs)
  have 6: "booking_findUnique hotel4 ''b6'' = Some completed_stay"
    by (simp add: booking_findUnique_def data_defs)
  have u: "userId stay_10_15 = ''u1''" "userId cancelled_stay = ''u1''"
    "userId completed_stay = ''u1''" "status stay_10_15 = CONFIRMED"
    "status cancelled_stay = CANCELLED" "status completed_stay = COMPLETED"
    by (simp_all add: stay_10_15_def cancelled_stay_def completed_stay_def)
  show ?thesis
    using cancelBooking_rules [OF ne(1) 1, of "''USER''" "''u2''"]
          cancelBooking_rules [OF ne(2) 5, of "''USER''" "''u1''"]
          cancelBooking_rules [OF ne(3) 6, of "''USER''" "''u1''"]
          cancelBooking_rules [OF ne(1) 1, of "''USER''" "''u1''"] u
    by auto
qed

text \<open>
  Claim C10. Cancellation looks the booking up first, then checks the actor, then the
  status: an id with no booking gives \<open>Booking Not Found\<close> whoever asks, and a
  booking of another user gives \<open>Access Denied\<close> to an actor who is not an
  administrator, whatever the booking's status; the store is unchanged in both cases.
\<close>

theorem cancelBooking_check_order:
  assumes "i \<noteq> []"
  shows "(booking_findUnique st i = None \<longrightarrow>
            cancelBooking st actorId actorRole i = (Inl BookingNotFound, st)) \<and>
         (\<forall>b. booking_findUnique st i = Some b \<and> userId b \<noteq> actorId \<and> actorRole \<noteq> ''ADMIN'' \<longrightarrow>
            cancelBooking st actorId actorRole i = (Inl AccessDenied, st))"
  using assms by (simp add: cancelBooking_def validateId_ok)

theorem cancelBooking_check_order_witness:
  "cancelBooking hotel4 ''u1'' ''ADMIN'' ''b9'' = (Inl BookingNotFound, hotel4) \<and>
   cancelBooking hotel4 ''u2'' ''USER'' ''b5'' = (Inl AccessDenied, hotel4) \<and>
   cancelBooking hotel4 ''u2'' ''USER'' ''b6'' = (Inl AccessDenied, hotel4)"
proof -
  have ne: "''b9'' \<noteq> []" "''b5'' \<noteq> []" "''b6'' \<noteq> []" by simp_all
  have 9: "booking_findUnique hotel4 ''b9'' = None"
    by (simp add: booking_findUnique_def data_defs)
  have 5: "booking_findUnique hotel4 ''b5'' = Some cancelled_stay"
    by (simp add: booking_findUnique_def data_defs)
  have 6: "booking_findUnique hotel4 ''b6'' = Some completed_stay"
    by (simp add: booking_findUnique_def data_defs)
  have u: "userId cancelled_stay \<noteq> ''u2''" "userId completed_stay \<noteq> ''u2''"
    by (simp_all add: cancelled_stay_def completed_stay_def)
  show ?thesis
    using cancelBooking_check_order [OF ne(1), of hotel4 "''u1''" "''ADMIN''"]
          cancelBooking_check_order [OF ne(2), of hotel4 "''u2''" "''USER''"]
          cancelBooking_check_order [OF ne(3), of hotel4 "''u2''" "''USER''"] 9 5 6 u
    by auto
qed

section \<open>The status of a booking over time\<close>

lemma createBooking_keeps:
  "booking_findUnique st i = Some b \<Longrightarrow>
   booking_findUnique (snd (createBooking today newId st uid rid checkin checkout g)) i = Some b"
  by (auto simp: createBooking_def booking_findUnique_def Let_def find_append_Some
           split: option.splits)

lemma cancelBooking_keeps_other:
  assumes "j \<noteq> i"
  shows "booking_findUnique (snd (cancelBooking st actorId actorRole j)) i = booking_findUnique st i"
proof -
  have "booking_findUnique (st\<lparr>bookings := bs\<rparr>) i = booking_findUnique st i"
    if "booking_update j (\<lambda>b. b\<lparr>status := CANCELLED\<rparr>) (bookings st) = Some (b', bs)" for b' bs
    using booking_update_other [OF that, of i] assms by (simp add: booking_findUnique_def)
  then show ?thesis
    by (auto simp: cancelBooking_def split: option.splits)
qed

lemma cancelBooking_transition:
  assumes "booking_findUnique st i = Some b"
  shows "\<exists>b'. booking_findUnique (snd (cancelBooking st actorId actorRole i)) i = Some b' \<and>
           (b' = b \<or> ((status b = PENDING \<or> status b = CONFIRMED) \<and> b' = b\<lparr>status := CANCELLED\<rparr>))"
proof (cases "i \<noteq> [] \<and> (actorRole = ''ADMIN'' \<or> userId b = actorId) \<and>
              (status b = PENDING \<or> status b = CONFIRMED)")
  case True
  then show ?thesis
    using cancelBooking_success [OF _ assms, of actorRole actorId] by auto
next
  case False
  then have "snd (cancelBooking st actorId actorRole i) = st"
    using assms
    by (cases "status b")
       (auto simp: cancelBooking_def handleValidationErrors_def validateId_def)
  then show ?thesis using assms by simp
qed

lemma updateBookingStatus_keeps:
  assumes "\<not> (actorRole = ''ADMIN'' \<and> j = i)"
  shows "booking_findUnique (snd (updateBookingStatus st actorRole j s)) i = booking_findUnique st i"
proof (cases "actorRole = ''ADMIN''")
  case False
  then show ?thesis by (simp add: updateBookingStatus_def)
next
  case True
  with assms have ji: "j \<noteq> i" by simp
  have "booking_findUnique (st\<lparr>bookings := bs\<rparr>) i = booking_findUnique st i"
    if "booking_update j (\<lambda>b. b\<lparr>status := x\<rparr>) (bookings st) = Some (b', bs)" for b' bs x
    using booking_update_other [OF that, of i] ji by (simp add: booking_findUnique_def)
  then show ?thesis
    by (auto simp: updateBookingStatus_def split: option.splits)
qed

lemma step_transition:
  assumes "booking_findUnique st i = Some b" and "\<not> adminStatusUpdateOf i op"
  shows "\<exists>b'. booking_findUnique (step st op) i = Some b' \<and>
           cancel_reachable (status b) (status b') \<and>
           (status b = CANCELLED \<or> status b = COMPLETED \<longrightarrow> b' = b)"
proof (cases op)
  case (Create today newId uid rid checkin checkout g)
  then show ?thesis using createBooking_keeps [OF assms(1)] by (simp add: cancel_reachable_def)
next
  case (Cancel actorId actorRole j)
  show ?thesis
  proof (cases "j = i")
    case True
    then show ?thesis
      using cancelBooking_transition [OF assms(1), of actorId actorRole] Cancel
      by (auto simp: cancel_reachable_def)
  next
    case False
    then show ?thesis
      using cancelBooking_keeps_other [OF False, of st actorId actorRole] assms(1) Cancel
      by (simp add: cancel_reachable_def)
  qed
next
  case (UpdateStatus actorRole j s)
  then show ?thesis
    using updateBookingStatus_keeps [of actorRole j i st s] assms
    by (simp add: cancel_reachable_def)
qed

lemma cancel_reachable_trans:
  "cancel_reachable s s' \<Longrightarrow> cancel_reachable s' s'' \<Longrightarrow> cancel_reachable s s''"
  by (auto simp: cancel_reachable_def)

lemma run_transition:
  assumes "booking_findUnique st i = Some b" and "\<forall>op\<in>set ops. \<not> adminStatusUpdateOf i op"
  shows "\<exists>b'. booking_findUnique (run st ops) i = Some b' \<and>
           cancel_reachable (status b) (status b') \<and>
           (status b = CANCELLED \<or> status b = COMPLETED \<longrightarrow> b' = b)"
  using assms unfolding run_def
proof (induction ops arbitrary: st b)
  case Nil
  then show ?case by (simp add: cancel_reachable_def)
next
  case (Cons op ops)
  from Cons.prems obtain b1 where
    b1: "booking_findUnique (step st op) i = Some b1"
        "cancel_reachable (status b) (status b1)"
        "status b = CANCELLED \<or> status b = COMPLETED \<longrightarrow> b1 = b"
    using step_transition [of st i b op] by auto
  from Cons.IH [OF b1(1)] Cons.prems(2) obtain b' where
    b': "booking_findUnique (foldl step (step st op) ops) i = Some b'"
        "cancel_reachable (status b1) (status b')"
        "status b1 = CANCELLED \<or> status b1 = COMPLETED \<longrightarrow> b' = b1"
    by auto
  from b1 b' show ?case
    by (auto intro: cancel_reachable_trans)
qed

text \<open>The status route, asked by an administrator for a status it accepts, writes that
  status over whatever the booking had.\<close>

lemma updateBookingStatus_admin:
  assumes "i \<noteq> []" and "booking_findUnique st i = Some b"
    and "status_of_string s = Some new"
  shows "\<exists>st'. updateBookingStatus st ''ADMIN'' i s = (Inr (b\<lparr>status := new\<rparr>), st') \<and>
           booking_findUnique st' i = Some (b\<lparr>status := new\<rparr>) \<and>
           (\<forall>j. j \<noteq> i \<longrightarrow> booking_findUnique st' j = booking_findUnique st j) \<and>
           rooms st' = rooms st"
proof -
  let ?f = "\<lambda>b::booking. b\<lparr>status := new\<rparr>"
  from assms(2) obtain bs where u: "booking_update i ?f (bookings st) = Some (?f b, bs)"
    unfolding booking_findUnique_def using booking_update_found by blast
  have same: "find (\<lambda>b. booking_id b = i) bs = Some (?f b)"
    by (rule booking_update_same [OF u]) simp
  have other: "\<And>j. j \<noteq> i \<Longrightarrow>
      find (\<lambda>b. booking_id b = j) bs = find (\<lambda>b. booking_id b = j) (bookings st)"
    by (rule booking_update_other [OF u]) simp_all
  have "updateBookingStatus st ''ADMIN'' i s = (Inr (?f b), st\<lparr>bookings := bs\<rparr>)"
    using assms(1,3) u by (simp add: updateBookingStatus_def validateId_ok)
  with same other show ?thesis by (simp add: booking_findUnique_def)
qed

text \<open>Each of the four statuses has a name that the status route accepts.\<close>

lemma status_of_string_onto: "\<exists>s. status_of_string s = Some new"
proof (cases new)
  case PENDING
  then have "status_of_string ''PENDING'' = Some new" by (simp add: status_of_string_def)
  then show ?thesis ..
next
  case CONFIRMED
  then have "status_of_string ''CONFIRMED'' = Some new" by (simp add: status_of_string_def)
  then show ?thesis ..
next
  case CANCELLED
  then have "status_of_string ''CANCELLED'' = Some new" by (simp add: status_of_string_def)
  then show ?thesis ..
next
  case COMPLETED
  then have "status_of_string ''COMPLETED'' = Some new" by (simp add: status_of_string_def)
  then show ?thesis ..
qed

lemma updateBookingStatus_rejects:
  "actorRole \<noteq> ''ADMIN'' \<Longrightarrow> updateBookingStatus st actorRole i s = (Inl AccessDenied, st)"
  "status_of_string s = None \<Longrightarrow> i \<noteq> [] \<Longrightarrow>
     updateBookingStatus st ''ADMIN'' i s = (Inl InvalidStatus, st)"
  by (simp_all add: updateBookingStatus_def validateId_ok)

lemma createBooking_status:
  "createBooking today newId st uid rid checkin checkout g = (Inr nb, st2) \<Longrightarrow>
   status nb = PENDING \<and> bookings st2 = bookings st @ [nb]"
  by (auto simp: createBooking_def Let_def split: option.splits if_splits)

text \<open>
  Claim C8, as the code has it. For a booking stored under id \<open>i\<close>:
  \<^item> over any sequence of booking creations, cancellations and status updates that
    contains no administrator's status update of booking \<open>i\<close>, the booking stays in the
    store, its status either stays or goes from \<open>PENDING\<close> or \<open>CONFIRMED\<close> to
    \<open>CANCELLED\<close>, and once it is \<open>CANCELLED\<close> or \<open>COMPLETED\<close> the booking does not
    change at all;
  \<^item> an administrator's status update of booking \<open>i\<close> with an accepted status name
    succeeds whatever the booking's status is, and writes the named status, leaving every
    other booking and every room as before; each of the four statuses has such a name;
    a status update by anyone else is refused and changes nothing;
  \<^item> a booking that creation adds to the store has status \<open>PENDING\<close>.
\<close>

theorem booking_status_transitions:
  assumes "booking_findUnique st i = Some b"
  shows "((\<forall>op\<in>set ops. \<not> adminStatusUpdateOf i op) \<longrightarrow>
            (\<exists>b'. booking_findUnique (run st ops) i = Some b' \<and>
                  cancel_reachable (status b) (status b') \<and>
                  (status b = CANCELLED \<or> status b = COMPLETED \<longrightarrow> b' = b))) \<and>
         (i \<noteq> [] \<and> status_of_string s = Some new \<longrightarrow>
            (\<exists>st'. updateBookingStatus st ''ADMIN'' i s = (Inr (b\<lparr>status := new\<rparr>), st') \<and>
                   booking_findUnique st' i = Some (b\<lparr>status := new\<rparr>) \<and>
                   (\<forall>j. j \<noteq> i \<longrightarrow> booking_findUnique st' j = booking_findUnique st j) \<and>
                   rooms st' = rooms st)) \<and>
         (\<exists>name. status_of_string name = Some new) \<and>
         (actorRole \<noteq> ''ADMIN'' \<longrightarrow>
            updateBookingStatus st actorRole i s = (Inl AccessDenied, st)) \<and>
         (createBooking today newId st uid rid checkin checkout g = (Inr nb, st2) \<longrightarrow>
            status nb = PENDING \<and> bookings st2 = bookings st @ [nb])"
proof (intro conjI impI)
  assume "\<forall>op\<in>set ops. \<not> adminStatusUpdateOf i op"
  with assms show "\<exists>b'. booking_findUnique (run st ops) i = Some b' \<and>
                  cancel_reachable (status b) (status b') \<and>
                  (status b = CANCELLED \<or> status b = COMPLETED \<longrightarrow> b' = b)"
    by (rule run_transition)
next
  assume "i \<noteq> [] \<and> status_of_string s = Some new"
  then show "\<exists>st'. updateBookingStatus st ''ADMIN'' i s = (Inr (b\<lparr>status := new\<rparr>), st') \<and>
                   booking_findUnique st' i = Some (b\<lparr>status := new\<rparr>) \<and>
                   (\<forall>j. j \<noteq> i \<longrightarrow> booking_findUnique st' j = booking_findUnique st j) \<and>
                   rooms st' = rooms st"
    using updateBookingStatus_admin [OF _ assms, of s new] by blast
next
  show "\<exists>name. status_of_string name = Some new" by (rule status_of_string_onto)
next
  assume "actorRole \<noteq> ''ADMIN''"
  then show "updateBookingStatus st actorRole i s = (Inl AccessDenied, st)"
    by (rule updateBookingStatus_rejects(1))
next
  assume c: "createBooking today newId st uid rid checkin checkout g = (Inr nb, st2)"
  then show "status nb = PENDING" using createBooking_status by blast
  from c show "bookings st2 = bookings st @ [nb]" using createBooking_status by blast
qed

theorem booking_status_transitions_witness:
  "booking_findUnique (run hotel4 guest_ops) ''b5'' = Some cancelled_stay \<and>
   fst (updateBookingStatus hotel4 ''ADMIN'' ''b5'' ''CONFIRMED'') =
     Inr (cancelled_stay\<lparr>status := CONFIRMED\<rparr>) \<and>
   booking_findUnique (snd (updateBookingStatus hotel4 ''ADMIN'' ''b5'' ''CONFIRMED'')) ''b5'' =
     Some (cancelled_stay\<lparr>status := CONFIRMED\<rparr>) \<and>
   updateBookingStatus hotel4 ''USER'' ''b5'' ''CONFIRMED'' = (Inl AccessDenied, hotel4) \<and>
   createBooking jan10 ''b2'' hotel4 ''u2'' ''r1'' jan20 jan23 2 =
     (Inr three_nights,
      hotel4\<lparr>bookings := [cancelled_stay, completed_stay, three_nights]\<rparr>) \<and>
   status three_nights = PENDING"
proof -
  have 1: "booking_findUnique hotel4 ''b5'' = Some cancelled_stay"
    by (simp add: booking_findUnique_def data_defs)
  have 2: "\<forall>op\<in>set guest_ops. \<not> adminStatusUpdateOf ''b5'' op"
    by (simp add: guest_ops_def)
  have 3: "status cancelled_stay = CANCELLED" by (simp add: cancelled_stay_def)
  have 4: "''b5'' \<noteq> [] \<and> status_of_string ''CONFIRMED'' = Some CONFIRMED"
    by (simp add: status_of_string_def)
  have 5: "''USER'' \<noteq> ''ADMIN''" by simp
  have 6: "createBooking jan10 ''b2'' hotel4 ''u2'' ''r1'' jan20 jan23 2 =
     (Inr three_nights,
      hotel4\<lparr>bookings := [cancelled_stay, completed_stay, three_nights]\<rparr>)"
    by (simp add: data_defs handler_defs)
  show ?thesis
    using booking_status_transitions [OF 1, where ops = guest_ops and s = "''CONFIRMED''"
            and new = CONFIRMED and actorRole = "''USER''" and today = jan10
            and newId = "''b2''" and uid = "''u2''" and rid = "''r1''" and checkin = jan20
            and checkout = jan23 and g = 2 and nb = three_nights
            and ?st2.0 = "hotel4\<lparr>bookings := [cancelled_stay, completed_stay, three_nights]\<rparr>"]
          2 3 4 5 6
    by auto
qed

text \<open>An administrator's status update takes a cancelled booking back to \<open>PENDING\<close>.\<close>

theorem admin_update_reopens_cancelled:
  "booking_findUnique hotel4 ''b5'' = Some cancelled_stay \<and>
   status cancelled_stay = CANCELLED \<and>
   booking_findUnique (run hotel4 [UpdateStatus ''ADMIN'' ''b5'' ''PENDING'']) ''b5'' =
     Some (cancelled_stay\<lparr>status := PENDING\<rparr>)"
  by (simp add: run_def updateBookingStatus_def handleValidationErrors_def validateId_def
                status_of_string_def booking_findUnique_def data_defs)

end
